theory Spec2Isabelle
  imports Main "HOL-Library.AList"
begin

section \<open>Python strings\<close>

text \<open>
  A Python \<open>str\<close> is modelled as a \<^typ>\<open>string\<close> holding its UTF-8 bytes, so ASCII text
  is itself. The character classes of \<open>str\<close> and \<open>re\<close> (\<open>isspace\<close>, \<open>\<^verbatim>\<open>\d\<close>\<close>,
  \<open>\<^verbatim>\<open>\w\<close>\<close>, \<open>isupper\<close>, \<open>lower\<close>) are modelled on their ASCII range.
\<close>

definition is_space :: "char \<Rightarrow> bool" where
  "is_space c = (c \<in> set [CHR 0x09, CHR 0x0A, CHR 0x0B, CHR 0x0C, CHR 0x0D,
                             CHR 0x1C, CHR 0x1D, CHR 0x1E, CHR 0x1F, CHR 0x20])"

definition is_digit :: "char \<Rightarrow> bool" where
  "is_digit c = (let n = (of_char c :: nat) in 48 \<le> n \<and> n \<le> 57)"

definition is_upper :: "char \<Rightarrow> bool" where
  "is_upper c = (let n = (of_char c :: nat) in 65 \<le> n \<and> n \<le> 90)"

definition is_lower :: "char \<Rightarrow> bool" where
  "is_lower c = (let n = (of_char c :: nat) in 97 \<le> n \<and> n \<le> 122)"

definition is_alpha :: "char \<Rightarrow> bool" where
  "is_alpha c = (is_upper c \<or> is_lower c)"

definition is_word :: "char \<Rightarrow> bool" where
  "is_word c = (is_alpha c \<or> is_digit c \<or> c = CHR ''_'')"

definition lower_char :: "char \<Rightarrow> char" where
  "lower_char c = (if is_upper c then char_of ((of_char c :: nat) + 32) else c)"

definition upper_char :: "char \<Rightarrow> char" where
  "upper_char c = (if is_lower c then char_of ((of_char c :: nat) - 32) else c)"

definition lower :: "string \<Rightarrow> string" where
  "lower s = map lower_char s"

definition upper :: "string \<Rightarrow> string" where
  "upper s = map upper_char s"

definition strip_chars :: "(char \<Rightarrow> bool) \<Rightarrow> string \<Rightarrow> string" where
  "strip_chars p s = rev (dropWhile p (rev (dropWhile p s)))"

definition strip :: "string \<Rightarrow> string" where
  "strip s = strip_chars is_space s"

definition newline :: string where
  "newline = [CHR 0x0A]"

text \<open>\<open>str.splitlines()\<close>: the line boundaries of the ASCII range, \<open>\<^verbatim>\<open>\r\n\<close>\<close> counted once,
  and no empty last line.\<close>

definition is_linebreak :: "char \<Rightarrow> bool" where
  "is_linebreak c = (c \<in> set [CHR 0x0A, CHR 0x0B, CHR 0x0C, CHR 0x0D, CHR 0x1C, CHR 0x1D, CHR 0x1E])"

fun splitlines_from :: "string \<Rightarrow> string \<Rightarrow> string list" where
  "splitlines_from cur [] = (if cur = [] then [] else [rev cur])"
| "splitlines_from cur [c] =
     (if is_linebreak c then [rev cur] else [rev (c # cur)])"
| "splitlines_from cur (c # d # cs) =
     (if c = CHR 0x0D \<and> d = CHR 0x0A then rev cur # splitlines_from [] cs
      else if is_linebreak c then rev cur # splitlines_from [] (d # cs)
      else splitlines_from (c # cur) (d # cs))"

definition splitlines :: "string \<Rightarrow> string list" where
  "splitlines s = splitlines_from [] s"

text \<open>\<open>sep.join(parts)\<close>.\<close>

fun join :: "string \<Rightarrow> string list \<Rightarrow> string" where
  "join sep [] = []"
| "join sep [x] = x"
| "join sep (x # y # ys) = x @ sep @ join sep (y # ys)"

text \<open>\<open>str.split()\<close> without arguments: the maximal runs of non-whitespace.\<close>

fun split_ws_from :: "string \<Rightarrow> string \<Rightarrow> string list" where
  "split_ws_from cur [] = (if cur = [] then [] else [rev cur])"
| "split_ws_from cur (c # cs) =
     (if is_space c then (if cur = [] then [] else [rev cur]) @ split_ws_from [] cs
      else split_ws_from (c # cur) cs)"

definition split_ws :: "string \<Rightarrow> string list" where
  "split_ws s = split_ws_from [] s"

text \<open>\<open>needle in haystack\<close> and \<open>str.startswith\<close>.\<close>

fun contains :: "string \<Rightarrow> string \<Rightarrow> bool" where
  "contains [] needle = (needle = [])"
| "contains (c # cs) needle = (take (length needle) (c # cs) = needle \<or> contains cs needle)"

definition startswith :: "string \<Rightarrow> string \<Rightarrow> bool" where
  "startswith s p = (take (length p) s = p)"

section \<open>Regular expressions of the \<open>re\<close> module\<close>

text \<open>
  The patterns of the parser are written as terms of \<open>rx\<close>. The matcher is a backtracking
  matcher over positions of the subject string: it returns the ends of all matches from a
  position, with the capture groups, in the order in which \<open>re\<close> tries them (the greedy
  repetition longest first, the lazy one shortest first, the alternatives from the left).
  Every repeated body in the patterns of the parser consumes at least one character.
\<close>

datatype rx =
    Lit string
  | Cls "char \<Rightarrow> bool"
  | Seq rx rx
  | Alt rx rx
  | Rep rx nat "nat option"
  | RepLazy rx nat "nat option"
  | Grp nat rx
  | WordB
  | Bol
  | Eol

type_synonym mstate = "nat \<times> (nat \<times> nat \<times> nat) list"

definition below :: "nat option \<Rightarrow> nat \<Rightarrow> bool" where
  "below hi k = (case hi of None \<Rightarrow> True | Some h \<Rightarrow> k < h)"

fun rep_greedy ::
  "(mstate \<Rightarrow> mstate list) \<Rightarrow> nat \<Rightarrow> nat option \<Rightarrow> nat \<Rightarrow> nat \<Rightarrow> mstate \<Rightarrow> mstate list" where
  "rep_greedy f lo hi k 0 st = (if lo \<le> k then [st] else [])"
| "rep_greedy f lo hi k (Suc fuel) st =
     (if below hi k
      then concat (map (rep_greedy f lo hi (Suc k) fuel) (filter (\<lambda>st'. fst st < fst st') (f st)))
      else [])
     @ (if lo \<le> k then [st] else [])"

fun rep_lazy ::
  "(mstate \<Rightarrow> mstate list) \<Rightarrow> nat \<Rightarrow> nat option \<Rightarrow> nat \<Rightarrow> nat \<Rightarrow> mstate \<Rightarrow> mstate list" where
  "rep_lazy f lo hi k 0 st = (if lo \<le> k then [st] else [])"
| "rep_lazy f lo hi k (Suc fuel) st =
     (if lo \<le> k then [st] else [])
     @ (if below hi k
        then concat (map (rep_lazy f lo hi (Suc k) fuel) (filter (\<lambda>st'. fst st < fst st') (f st)))
        else [])"

definition char_eq :: "bool \<Rightarrow> char \<Rightarrow> char \<Rightarrow> bool" where
  "char_eq ic a b = (if ic then lower_char a = lower_char b else a = b)"

definition word_boundary :: "string \<Rightarrow> nat \<Rightarrow> bool" where
  "word_boundary s i =
     ((0 < i \<and> i \<le> length s \<and> is_word (s ! (i - 1))) \<noteq> (i < length s \<and> is_word (s ! i)))"

primrec rmatch :: "bool \<Rightarrow> string \<Rightarrow> rx \<Rightarrow> mstate \<Rightarrow> mstate list" where
  "rmatch ic s (Lit l) st =
     (let i = fst st; t = take (length l) (drop i s)
      in if length t = length l \<and> list_all2 (char_eq ic) t l then [(i + length l, snd st)] else [])"
| "rmatch ic s (Cls p) st =
     (let i = fst st
      in if i < length s \<and>
            (p (s ! i) \<or> (ic \<and> (p (lower_char (s ! i)) \<or> p (upper_char (s ! i)))))
         then [(Suc i, snd st)] else [])"
| "rmatch ic s (Seq a b) st = concat (map (rmatch ic s b) (rmatch ic s a st))"
| "rmatch ic s (Alt a b) st = rmatch ic s a st @ rmatch ic s b st"
| "rmatch ic s (Rep r lo hi) st = rep_greedy (rmatch ic s r) lo hi 0 (Suc (length s)) st"
| "rmatch ic s (RepLazy r lo hi) st = rep_lazy (rmatch ic s r) lo hi 0 (Suc (length s)) st"
| "rmatch ic s (Grp n r) st =
     map (\<lambda>st'. (fst st', (n, fst st, fst st') # snd st')) (rmatch ic s r st)"
| "rmatch ic s WordB st = (if word_boundary s (fst st) then [st] else [])"
| "rmatch ic s Bol st = (if fst st = 0 then [st] else [])"
| "rmatch ic s Eol st =
     (if fst st = length s \<or> (Suc (fst st) = length s \<and> s ! fst st = CHR 0x0A) then [st] else [])"

text \<open>A match: where it starts, where it ends, and its groups.\<close>

record rmatch_result =
  m_start :: nat
  m_end :: nat
  m_groups :: "(nat \<times> nat \<times> nat) list"

definition match_at :: "bool \<Rightarrow> rx \<Rightarrow> string \<Rightarrow> nat \<Rightarrow> rmatch_result option" where
  "match_at ic r s i =
     (case rmatch ic s r (i, []) of
        [] \<Rightarrow> None
      | st # _ \<Rightarrow> Some \<lparr>m_start = i, m_end = fst st, m_groups = snd st\<rparr>)"

fun first_some :: "('a \<Rightarrow> 'b option) \<Rightarrow> 'a list \<Rightarrow> 'b option" where
  "first_some f [] = None"
| "first_some f (x # xs) = (case f x of Some y \<Rightarrow> Some y | None \<Rightarrow> first_some f xs)"

definition search_from :: "bool \<Rightarrow> rx \<Rightarrow> string \<Rightarrow> nat \<Rightarrow> rmatch_result option" where
  "search_from ic r s p = first_some (match_at ic r s) [p..<Suc (length s)]"

definition re_search :: "bool \<Rightarrow> rx \<Rightarrow> string \<Rightarrow> rmatch_result option" where
  "re_search ic r s = search_from ic r s 0"

definition re_match :: "bool \<Rightarrow> rx \<Rightarrow> string \<Rightarrow> rmatch_result option" where
  "re_match ic r s = match_at ic r s 0"

definition re_fullmatch :: "bool \<Rightarrow> rx \<Rightarrow> string \<Rightarrow> rmatch_result option" where
  "re_fullmatch ic r s =
     (case filter (\<lambda>st. fst st = length s) (rmatch ic s r (0, [])) of
        [] \<Rightarrow> None
      | st # _ \<Rightarrow> Some \<lparr>m_start = 0, m_end = fst st, m_groups = snd st\<rparr>)"

definition substr :: "string \<Rightarrow> nat \<Rightarrow> nat \<Rightarrow> string" where
  "substr s i j = take (j - i) (drop i s)"

text \<open>\<open>match.group(n)\<close> of a group that took part in the match.\<close>

definition group :: "string \<Rightarrow> rmatch_result \<Rightarrow> nat \<Rightarrow> string" where
  "group s m n = (case map_of (m_groups m) n of None \<Rightarrow> [] | Some (i, j) \<Rightarrow> substr s i j)"

definition whole :: "string \<Rightarrow> rmatch_result \<Rightarrow> string" where
  "whole s m = substr s (m_start m) (m_end m)"

text \<open>All non-overlapping matches from the left, as \<open>finditer\<close> yields them.\<close>

function finditer_from :: "bool \<Rightarrow> rx \<Rightarrow> string \<Rightarrow> nat \<Rightarrow> rmatch_result list" where
  "finditer_from ic r s p =
     (if length s < p then []
      else case search_from ic r s p of
             None \<Rightarrow> []
           | Some m \<Rightarrow> m # finditer_from ic r s (max (m_end m) (Suc p)))"
  by pat_completeness auto
termination
  by (relation "measure (\<lambda>(ic, r, s, p). Suc (length s) - p)") auto

definition finditer :: "bool \<Rightarrow> rx \<Rightarrow> string \<Rightarrow> rmatch_result list" where
  "finditer ic r s = finditer_from ic r s 0"

text \<open>\<open>re.sub(pattern, repl, s)\<close> for a literal replacement, and \<open>re.split\<close>, for
  patterns that match non-empty text only.\<close>

fun pieces :: "string \<Rightarrow> nat \<Rightarrow> rmatch_result list \<Rightarrow> string list" where
  "pieces s p [] = [drop p s]"
| "pieces s p (m # ms) = substr s p (m_start m) # pieces s (m_end m) ms"

definition re_split :: "bool \<Rightarrow> rx \<Rightarrow> string \<Rightarrow> string list" where
  "re_split ic r s = pieces s 0 (finditer ic r s)"

definition re_sub :: "bool \<Rightarrow> rx \<Rightarrow> string \<Rightarrow> string \<Rightarrow> string" where
  "re_sub ic r repl s = join repl (re_split ic r s)"

definition re_sub_first :: "bool \<Rightarrow> rx \<Rightarrow> string \<Rightarrow> string \<Rightarrow> string" where
  "re_sub_first ic r repl s = join repl (pieces s 0 (take 1 (finditer ic r s)))"

abbreviation Opt :: "rx \<Rightarrow> rx" where
  "Opt r \<equiv> Rep r 0 (Some 1)"

abbreviation Star :: "rx \<Rightarrow> rx" where
  "Star r \<equiv> Rep r 0 None"

abbreviation Plus :: "rx \<Rightarrow> rx" where
  "Plus r \<equiv> Rep r 1 None"

fun Seqs :: "rx list \<Rightarrow> rx" where
  "Seqs [] = Lit []"
| "Seqs [r] = r"
| "Seqs (r # rs) = Seq r (Seqs rs)"

fun Alts :: "rx list \<Rightarrow> rx" where
  "Alts [] = Cls (\<lambda>c. False)"
| "Alts [r] = r"
| "Alts (r # rs) = Alt r (Alts rs)"

section \<open>pipeline_utils.normalize_space\<close>

definition normalize_space :: "string \<Rightarrow> bool \<Rightarrow> string" where
  "normalize_space v keep_newlines =
     (let v = strip v
      in if keep_newlines
         then (let lines1 = map (\<lambda>line. strip (re_sub False (Plus (Cls (\<lambda>c. c = CHR 0x20 \<or> c = CHR 0x09))) '' '' line))
                               (splitlines v);
                   lines2 = filter (\<lambda>line. line \<noteq> []) lines1
               in join newline lines2)
         else re_sub False (Plus (Cls is_space)) '' '' v)"

section \<open>The document\<close>

text \<open>
  The parser reads the page through BeautifulSoup, which is not part of the repository. The
  model takes what the calls on the parsed tree return: the nodes of
  \<open>soup.find_all(["h1", ..., "b", "table"])\<close> in document order, and for a table its caption,
  its rows (\<open>find_all("tr")\<close>), their cells (\<open>find_all(["th", "td"])\<close>), its previous siblings
  (nearest first) and the texts that \<open>get_text\<close> returns for them.
\<close>

record cell =
  cell_raw :: string
  rowspan :: "string option"
  colspan :: "string option"

record tr =
  tr_text :: string
  tr_cells :: "cell list"

datatype sibling = SibTag string | SibText

record table =
  caption :: "string option"
  table_text :: string
  trs :: "tr list"
  previous_siblings :: "sibling list"

datatype node = Block string | Table table

definition find_all_tables :: "node list \<Rightarrow> table list" where
  "find_all_tables soup = concat (map (\<lambda>n. case n of Block _ \<Rightarrow> [] | Table t \<Rightarrow> [t]) soup)"

section \<open>Grid construction\<close>

datatype py_error = ValueError

text \<open>\<open>int(s)\<close> of a string: surrounding whitespace, a sign, decimal digits with single
  underscores between them; anything else raises \<open>ValueError\<close>.\<close>

fun digits_ok :: "bool \<Rightarrow> string \<Rightarrow> bool" where
  "digits_ok after_digit [] = after_digit"
| "digits_ok after_digit (c # cs) =
     (if is_digit c then digits_ok True cs
      else if c = CHR ''_'' \<and> after_digit then digits_ok False cs
      else False)"

definition digits_value :: "string \<Rightarrow> int" where
  "digits_value s = foldl (\<lambda>a c. 10 * a + (int (of_char c) - 48)) 0 (filter is_digit s)"

definition py_int :: "string \<Rightarrow> py_error + int" where
  "py_int s =
     (let t = strip s;
          neg = (case t of [] \<Rightarrow> False | c # _ \<Rightarrow> c = CHR ''-'');
          body = (case t of [] \<Rightarrow> [] | c # cs \<Rightarrow> if c = CHR ''-'' \<or> c = CHR ''+'' then cs else t)
      in if digits_ok False body
         then Inr (if neg then - digits_value body else digits_value body)
         else Inl ValueError)"

text \<open>\<open>max(1, int(cell.get(name, 1)))\<close> inside \<open>try\<close>, with \<open>except (TypeError, ValueError)\<close>
  giving 1.\<close>

definition cell_span :: "string option \<Rightarrow> int" where
  "cell_span attr =
     (case attr of
        None \<Rightarrow> max 1 1
      | Some s \<Rightarrow> (case py_int s of Inl _ \<Rightarrow> 1 | Inr n \<Rightarrow> max 1 n))"

definition extract_cell_text :: "cell \<Rightarrow> string" where
  "extract_cell_text c = normalize_space (cell_raw c) True"

text \<open>The pending vertical spans: column \<open>\<mapsto>\<close> (rows left, text).\<close>

type_synonym spans = "(nat \<times> int \<times> string) list"

function fill_span :: "spans \<Rightarrow> string list \<Rightarrow> nat \<Rightarrow> string list \<times> nat \<times> spans" where
  "fill_span spans row col =
     (case map_of spans col of
        None \<Rightarrow> (row, col, spans)
      | Some (rows, text) \<Rightarrow>
          fill_span (if rows - 1 \<le> 0 then AList.delete col spans
                     else AList.update col (rows - 1, text) spans)
                    (row @ [text]) (Suc col))"
  by pat_completeness auto
termination
proof (relation "measure (\<lambda>(spans, row, col). card {k \<in> dom (map_of spans). col \<le> k})", goal_cases)
  case 1
  show ?case by simp
next
  case (2 spans row col v rows t)
  define sp where
    "sp = (if rows - 1 \<le> 0 then AList.delete col spans else AList.update col (rows - 1, t) spans)"
  have in_dom: "col \<in> dom (map_of spans)"
    using 2 by auto
  have "map_of sp = (map_of spans)(col := None) \<or> map_of sp = (map_of spans)(col \<mapsto> (rows - 1, t))"
    by (simp add: sp_def AList.update_conv' AList.delete_conv')
  then have sub: "dom (map_of sp) \<subseteq> dom (map_of spans)"
    using in_dom by (elim disjE) (auto split: if_splits)
  have "{k \<in> dom (map_of sp). Suc col \<le> k} \<subseteq> {k \<in> dom (map_of spans). col \<le> k}"
    using sub by fastforce
  moreover have "col \<in> {k \<in> dom (map_of spans). col \<le> k}"
    using in_dom by simp
  moreover have "col \<notin> {k \<in> dom (map_of sp). Suc col \<le> k}"
    by simp
  ultimately have "{k \<in> dom (map_of sp). Suc col \<le> k} \<subset> {k \<in> dom (map_of spans). col \<le> k}"
    by blast
  moreover have "finite {k \<in> dom (map_of spans). col \<le> k}"
    by (simp add: finite_dom_map_of)
  ultimately have "card {k \<in> dom (map_of sp). Suc col \<le> k} < card {k \<in> dom (map_of spans). col \<le> k}"
    by (rule psubset_card_mono [rotated])
  then show ?case by (simp add: sp_def)
qed

text \<open>The loop \<open>for _ in range(colspan)\<close> over one cell.\<close>

fun place_cell ::
  "string \<Rightarrow> int \<Rightarrow> nat \<Rightarrow> spans \<Rightarrow> string list \<Rightarrow> nat \<Rightarrow> string list \<times> nat \<times> spans" where
  "place_cell text rspan 0 spans row col = (row, col, spans)"
| "place_cell text rspan (Suc n) spans row col =
     place_cell text rspan n
       (if rspan > 1 then AList.update col (rspan - 1, text) spans else spans)
       (row @ [text]) (Suc col)"

text \<open>The loop over the cells of one \<open>tr\<close>.\<close>

fun place_cells ::
  "cell list \<Rightarrow> spans \<Rightarrow> string list \<Rightarrow> nat \<Rightarrow> string list \<times> nat \<times> spans" where
  "place_cells [] spans row col = (row, col, spans)"
| "place_cells (c # cs) spans row col =
     (case fill_span spans row col of
        (row1, col1, spans1) \<Rightarrow>
          (case place_cell (extract_cell_text c) (cell_span (rowspan c)) (nat (cell_span (colspan c)))
                           spans1 row1 col1 of
             (row2, col2, spans2) \<Rightarrow> place_cells cs spans2 row2 col2))"

definition expand_row :: "tr \<Rightarrow> spans \<Rightarrow> string list \<times> spans" where
  "expand_row r spans =
     (case fill_span spans [] 0 of
        (row0, col0, spans0) \<Rightarrow>
          (case place_cells (tr_cells r) spans0 row0 col0 of
             (row1, col1, spans1) \<Rightarrow>
               (case fill_span spans1 row1 col1 of
                  (row2, col2, spans2) \<Rightarrow> (row2, spans2))))"

text \<open>The loop over the rows: the grid before padding.\<close>

fun expand_rows :: "tr list \<Rightarrow> spans \<Rightarrow> string list list" where
  "expand_rows [] spans = []"
| "expand_rows (r # rs) spans =
     (case expand_row r spans of (row, spans1) \<Rightarrow> row # expand_rows rs spans1)"

definition max_cols :: "string list list \<Rightarrow> nat" where
  "max_cols grid = foldr max (map length grid) 0"

definition expand_table :: "table \<Rightarrow> string list list" where
  "expand_table t =
     (let grid = expand_rows (trs t) []
      in map (\<lambda>row. row @ replicate (max_cols grid - length row) []) grid)"

section \<open>Patterns and tables of the parser\<close>

definition DAY_ORDER :: "string list" where
  "DAY_ORDER = [''monday'', ''tuesday'', ''wednesday'', ''thursday'', ''friday'']"

text \<open>\<open>DAY_ALIASES\<close> in the order of the dictionary literal; the two aliases with a
  diacritic are their UTF-8 bytes.\<close>

definition DAY_ALIASES :: "(string \<times> string) list" where
  "DAY_ALIASES =
     [(''luni'', ''monday''), (''monday'', ''monday''), (''hetfo'', ''monday''),
      (''marti'', ''tuesday''),
      (''mar'' @ [CHR 0xC8, CHR 0x9B] @ ''i'', ''tuesday''),
      (''mar'' @ [CHR 0xC5, CHR 0xA3] @ ''i'', ''tuesday''),
      (''tuesday'', ''tuesday''), (''kedd'', ''tuesday''),
      (''miercuri'', ''wednesday''), (''wednesday'', ''wednesday''), (''szerda'', ''wednesday''),
      (''joi'', ''thursday''), (''thursday'', ''thursday''), (''csutortok'', ''thursday''),
      (''vineri'', ''friday''), (''friday'', ''friday''), (''pentek'', ''friday'')]"

definition en_dash :: string where
  "en_dash = [CHR 0xE2, CHR 0x80, CHR 0x93]"

definition em_dash :: string where
  "em_dash = [CHR 0xE2, CHR 0x80, CHR 0x94]"

definition digit :: rx where
  "digit = Cls is_digit"

definition ws :: rx where
  "ws = Cls is_space"

definition any_dash :: rx where
  "any_dash = Alt (Lit ''-'') (Lit en_dash)"

definition room_code_char :: rx where
  "room_code_char = Cls (\<lambda>c. is_alpha c \<or> is_digit c \<or> c \<in> set ''._/-'')"

definition clock :: rx where
  "clock = Seq (Rep digit 1 (Some 2)) (Opt (Seq (Lit '':'') (Rep digit 2 (Some 2))))"

definition TIME_RE :: rx where
  "TIME_RE = Seqs [WordB, Grp 1 (Seqs [clock, Star ws, any_dash, Star ws, clock]), WordB]"

definition GROUP_RE :: rx where
  "GROUP_RE = Seqs [WordB, Grp 1 (Rep digit 3 (Some 4)), WordB]"

definition TYPE_TAG_RE :: rx where
  "TYPE_TAG_RE = Seqs [Lit ''('', Alts [Lit ''c'', Lit ''s'', Lit ''l''], Lit '')'']"

definition TITLE_RE :: rx where
  "TITLE_RE =
     Seq WordB (Alts [Seq (Lit ''prof'') (Opt (Lit ''.'')), Seq (Lit ''asist'') (Opt (Lit ''.'')),
                      Seq (Lit ''conf'') (Opt (Lit ''.'')), Seq (Lit ''lect'') (Opt (Lit ''.'')),
                      Seq (Lit ''dr'') (Opt (Lit ''.''))])"

definition room_keyword :: rx where
  "room_keyword =
     Alts [Lit ''sala'', Lit ''room'', Seq (Lit ''amf'') (Opt (Lit ''iteatru'')), Lit ''aula'',
           Seq (Lit ''lab'') (Opt (Lit ''orator''))]"

definition ROOM_KEYWORD_RE :: rx where
  "ROOM_KEYWORD_RE = Seqs [WordB, room_keyword, WordB]"

definition ROOM_CAPTURE_RE :: rx where
  "ROOM_CAPTURE_RE =
     Seqs [WordB, room_keyword, Star ws, Opt (Cls (\<lambda>c. c \<in> set '':-'')), Star ws,
           Grp 1 (Plus room_code_char)]"

definition GROUP_HEADING_RE :: rx where
  "GROUP_HEADING_RE = Seqs [WordB, Lit ''grupa'', Plus ws, Grp 1 (Rep digit 3 (Some 4)), WordB]"

definition FORMATION_NUMERIC_RE :: rx where
  "FORMATION_NUMERIC_RE = Seqs [Bol, Rep digit 3 (Some 4), Opt (Seq (Lit ''/'') (Plus digit)), Eol]"

definition FORMATION_TOKEN_RE :: rx where
  "FORMATION_TOKEN_RE = Seqs [Bol, Rep (Cls is_alpha) 1 (Some 6), Rep digit 0 (Some 3), Eol]"

definition SUBGROUP_PREFIX_RE :: rx where
  "SUBGROUP_PREFIX_RE =
     Seqs [Bol,
           Alts [Seq (Lit ''sgr'') (Opt (Lit ''.'')), Seq (Lit ''subgr'') (Opt (Lit ''.'')),
                 Seq (Lit ''gr'') (Opt (Lit ''.''))],
           Star ws, Plus (Cls (\<lambda>c. is_word c \<or> c \<in> set ''/-'')), Star ws, Lit '':'', Star ws]"

text \<open>The groups \<open>course\<close>, \<open>instructor\<close> and \<open>room\<close> of \<open>INLINE_ENTRY_RE\<close> are 1, 2, 3.\<close>

definition INLINE_ENTRY_RE :: rx where
  "INLINE_ENTRY_RE =
     Seqs [Bol,
           Opt (Seqs [Alt (Seqs [Lit ''sapt'', Opt (Lit ''.''), Star ws, Cls (\<lambda>c. c \<in> set ''12'')])
                          (Seqs [Lit ''week'', Star ws, Cls (\<lambda>c. c \<in> set ''12'')]),
                      Star ws, Lit '':'', Star ws]),
           Grp 1 (RepLazy (Cls (\<lambda>c. c \<noteq> CHR 0x0A)) 1 None),
           Star ws, Lit ''('', Grp 2 (Plus (Cls (\<lambda>c. c \<notin> set ''()''))), Lit '')'',
           Star ws, Lit '','', Star ws,
           Grp 3 (Plus (Cls (\<lambda>c. is_word c \<or> c \<in> set ''./-''))), Eol]"

section \<open>Field classification\<close>

text \<open>\<open>_fold\<close>: NFKD decomposition and the removal of combining marks leave ASCII text as
  it is; what remains is \<open>lower()\<close>.\<close>

definition fold_text :: "string \<Rightarrow> string" where
  "fold_text v = lower v"

definition normalize_day :: "string \<Rightarrow> string option" where
  "normalize_day v =
     (let folded = fold_text (normalize_space v False)
      in first_some (\<lambda>(alias, canonical).
                       if re_search False (Seqs [WordB, Lit alias, WordB]) folded \<noteq> None
                       then Some canonical else None)
                    DAY_ALIASES)"

definition normalize_time :: "string \<Rightarrow> string" where
  "normalize_time v =
     (let v = filter (\<lambda>c. c \<noteq> CHR '' '') (strip v)
      in re_sub_first False any_dash en_dash v)"

fun extract_time :: "string list \<Rightarrow> string option" where
  "extract_time [] = None"
| "extract_time (c # row) =
     (case re_search False TIME_RE c of
        Some m \<Rightarrow> Some (normalize_time (group c m 1))
      | None \<Rightarrow> extract_time row)"

definition week1_re :: rx where
  "week1_re =
     Seqs [WordB,
           Alts [Seqs [Lit ''week'', Star ws, Lit ''1''],
                 Seqs [Lit ''sapt'', Opt (Lit ''.''), Star ws, Lit ''1''],
                 Seqs [Lit ''saptamana'', Star ws, Lit ''1''],
                 Seq (Lit ''impar'') (Opt (Lit ''a''))],
           WordB]"

definition week2_re :: rx where
  "week2_re =
     Seqs [WordB,
           Alts [Seqs [Lit ''week'', Star ws, Lit ''2''],
                 Seqs [Lit ''sapt'', Opt (Lit ''.''), Star ws, Lit ''2''],
                 Seqs [Lit ''saptamana'', Star ws, Lit ''2''],
                 Seq (Lit ''par'') (Opt (Lit ''a''))],
           WordB]"

definition detect_frequency :: "string \<Rightarrow> string" where
  "detect_frequency t =
     (let folded = fold_text t;
          has_week1 = (re_search False week1_re folded \<noteq> None);
          has_week2 = (re_search False week2_re folded \<noteq> None)
      in if has_week1 \<and> has_week2 then ''weekly''
         else if has_week1 then ''week1''
         else if has_week2 then ''week2''
         else if re_search False (Seqs [WordB, Alt (Lit ''weekly'') (Lit ''saptamanal''), WordB]) folded \<noteq> None
         then ''weekly''
         else ''weekly'')"

definition paren :: "rx \<Rightarrow> rx" where
  "paren r = Seqs [Lit ''('', r, Lit '')'']"

definition detect_type :: "string \<Rightarrow> string" where
  "detect_type t =
     (let folded = fold_text t
      in if re_search True (paren (Alt (Lit ''c'') (Lit ''curs''))) t \<noteq> None then ''lecture''
         else if re_search True (paren (Alt (Lit ''s'') (Lit ''sem''))) t \<noteq> None then ''seminar''
         else if re_search True (paren (Alt (Lit ''l'') (Lit ''lab''))) t \<noteq> None then ''lab''
         else if re_search False (Seqs [WordB, Alts [Lit ''lecture'', Lit ''course'', Lit ''curs''], WordB]) folded \<noteq> None
         then ''lecture''
         else if re_search False (Seqs [WordB, Lit ''seminar'', WordB]) folded \<noteq> None then ''seminar''
         else if re_search False (Seqs [WordB, Alt (Lit ''lab'') (Lit ''laborator''), WordB]) folded \<noteq> None
         then ''lab''
         else ''lecture'')"

definition is_frequency_line :: "string \<Rightarrow> bool" where
  "is_frequency_line line =
     (re_search False
        (Seqs [WordB,
               Alts [Seqs [Lit ''week'', Star ws, Cls (\<lambda>c. c \<in> set ''12'')], Lit ''weekly'',
                     Lit ''sapt'', Lit ''impar'', Lit ''par''],
               WordB])
        (fold_text line) \<noteq> None)"

definition is_time_or_day_token :: "string \<Rightarrow> bool" where
  "is_time_or_day_token line =
     (let cleaned = normalize_space line False
      in if re_fullmatch False TIME_RE cleaned \<noteq> None then True
         else normalize_day cleaned \<noteq> None \<and> length (split_ws cleaned) \<le> 2)"

definition strip_subgroup_prefix :: "string \<Rightarrow> string" where
  "strip_subgroup_prefix line = strip (re_sub True SUBGROUP_PREFIX_RE [] (normalize_space line False))"

definition is_formation_line :: "string \<Rightarrow> bool" where
  "is_formation_line line =
     (let cleaned = strip_chars (\<lambda>c. c \<in> set ''() '') (strip_subgroup_prefix line)
      in if cleaned = [] then False
         else if re_fullmatch False FORMATION_NUMERIC_RE cleaned \<noteq> None then True
         else if re_fullmatch False FORMATION_TOKEN_RE cleaned = None then False
         else (let up = upper cleaned
               in if list_ex (startswith up) [''CR'', ''LAB'', ''AMF'', ''AULA'', ''ROOM'', ''SALA''] then False
                  else if re_fullmatch False
                            (Seqs [Lit ''C'', Plus digit,
                                   Star (Cls (\<lambda>c. is_upper c \<or> is_digit c \<or> c \<in> set ''._/-''))]) up \<noteq> None
                  then False
                  else if re_fullmatch False
                            (Seqs [Lit ''L'', Plus digit,
                                   Star (Cls (\<lambda>c. is_upper c \<or> is_digit c \<or> c \<in> set ''._/-''))]) up \<noteq> None
                  then False
                  else True))"

definition is_room_line :: "string \<Rightarrow> bool" where
  "is_room_line line = (re_search True ROOM_KEYWORD_RE line \<noteq> None)"

definition is_instructor_line :: "string \<Rightarrow> bool" where
  "is_instructor_line line =
     (if re_search True TITLE_RE line \<noteq> None then True
      else if is_room_line line then False
      else (let words = filter (\<lambda>w. w \<noteq> []) (re_split False (Plus ws) (strip line))
            in if length words < 2 then False
               else (let capitalized = length (filter (\<lambda>w. is_upper (hd w)) words)
                     in capitalized \<ge> 2 \<and> \<not> is_frequency_line line)))"

definition detect_room :: "string list \<Rightarrow> string" where
  "detect_room lines =
     (case first_some (\<lambda>line. case re_search True ROOM_CAPTURE_RE line of
                                 Some m \<Rightarrow> Some (strip (group line m 1)) | None \<Rightarrow> None) lines of
        Some r \<Rightarrow> r
      | None \<Rightarrow>
          (case find is_room_line lines of
             Some line \<Rightarrow> strip line
           | None \<Rightarrow>
               (case find (\<lambda>token. \<not> (token = [] \<or> CHR '' '' \<in> set token)
                                    \<and> \<not> is_frequency_line token
                                    \<and> \<not> is_formation_line token
                                    \<and> \<not> is_time_or_day_token token
                                    \<and> re_search True TITLE_RE token = None)
                          (map (\<lambda>line. normalize_space line False) lines) of
                  Some token \<Rightarrow> token
                | None \<Rightarrow> [])))"

definition detect_instructor :: "string list \<Rightarrow> string" where
  "detect_instructor lines =
     (case find (\<lambda>line. re_search True TITLE_RE line \<noteq> None) lines of
        Some line \<Rightarrow> strip line
      | None \<Rightarrow> (case find is_instructor_line lines of Some line \<Rightarrow> strip line | None \<Rightarrow> []))"

definition strip_inline_metadata :: "string \<Rightarrow> string" where
  "strip_inline_metadata v =
     (let v = strip_subgroup_prefix v;
          v = re_sub True TYPE_TAG_RE [] v;
          v = re_sub True
                (Seqs [WordB,
                       Alts [Seqs [Lit ''week'', Star ws, Cls (\<lambda>c. c \<in> set ''12'')], Lit ''weekly'',
                             Seqs [Lit ''sapt'', Opt (Lit ''.''), Star ws, Opt (Cls (\<lambda>c. c \<in> set ''12''))],
                             Seq (Lit ''impar'') (Opt (Lit ''a'')), Seq (Lit ''par'') (Opt (Lit ''a''))],
                       WordB]) [] v
      in strip_chars (\<lambda>c. c \<in> set '' -'') (re_sub False (Plus ws) '' '' v))"

definition detect_course :: "string list \<Rightarrow> string" where
  "detect_course lines =
     (case find (\<lambda>line. \<not> (is_frequency_line line \<or> is_room_line line \<or> is_instructor_line line
                             \<or> is_formation_line line)
                        \<and> strip_inline_metadata line \<noteq> []) lines of
        Some line \<Rightarrow> strip_inline_metadata line
      | None \<Rightarrow>
          (case find (\<lambda>line. strip_inline_metadata line \<noteq> []
                              \<and> \<not> is_formation_line (strip_inline_metadata line)) lines of
             Some line \<Rightarrow> strip_inline_metadata line
           | None \<Rightarrow> ''Unknown''))"



definition split_cell_chunks :: "string \<Rightarrow> string list" where
  "split_cell_chunks t =
     (let chunks = map (\<lambda>chunk. normalize_space chunk True)
                       (filter (\<lambda>chunk. normalize_space chunk False \<noteq> [])
                               (re_split False (Rep (Lit newline) 2 None) t))
      in if chunks \<noteq> [] then chunks
         else if normalize_space t False \<noteq> [] then [normalize_space t True] else [])"

record entry =
  time :: string
  frequency :: string
  course :: string
  etype :: string
  room :: string
  instructor :: string

definition parse_inline_entry_line :: "string \<Rightarrow> string \<Rightarrow> entry option" where
  "parse_inline_entry_line line time_slot =
     (let cleaned = normalize_space line False
      in if cleaned = [] then None
         else (let stripped = strip_subgroup_prefix cleaned
               in case re_match True INLINE_ENTRY_RE stripped of
                    None \<Rightarrow> None
                  | Some m \<Rightarrow>
                      (let c = strip_inline_metadata (group stripped m 1)
                       in if c = [] then None
                          else Some \<lparr>time = time_slot,
                                     frequency = detect_frequency stripped,
                                     course = c,
                                     etype = detect_type stripped,
                                     room = normalize_space (group stripped m 3) False,
                                     instructor = normalize_space (group stripped m 2) False\<rparr>)))"

definition parse_inline_chunk :: "string \<Rightarrow> string \<Rightarrow> entry list" where
  "parse_inline_chunk chunk time_slot =
     List.map_filter (\<lambda>line. parse_inline_entry_line line time_slot) (splitlines chunk)"

text \<open>The loop over the chunks of a cell: the entries of one chunk.\<close>

definition chunk_lines :: "string \<Rightarrow> string list" where
  "chunk_lines chunk =
     (let lines1 = filter (\<lambda>line. line \<noteq> []) (splitlines chunk);
          lines2 = filter (\<lambda>line. normalize_day line = None) lines1;
          lines3 = filter (\<lambda>line. re_fullmatch False TIME_RE line = None) lines2
      in filter (\<lambda>line. \<not> is_formation_line line) lines3)"

definition parse_chunk :: "string \<Rightarrow> string \<Rightarrow> entry list" where
  "parse_chunk chunk time_slot =
     (let inline_entries = parse_inline_chunk chunk time_slot
      in if inline_entries \<noteq> [] then inline_entries
         else (let lines4 = chunk_lines chunk
               in if lines4 = [] then []
                  else (let e = \<lparr>time = time_slot,
                                  frequency = detect_frequency chunk,
                                  course = detect_course lines4,
                                  etype = detect_type chunk,
                                  room = detect_room lines4,
                                  instructor = detect_instructor lines4\<rparr>
                        in if course e \<noteq> [] then [e] else [])))"

text \<open>The last loop of \<open>_parse_cell_entries\<close>; the key of an entry is the tuple of its
  six fields.\<close>

definition entry_key :: "entry \<Rightarrow> string \<times> string \<times> string \<times> string \<times> string \<times> string" where
  "entry_key e = (time e, frequency e, course e, etype e, room e, instructor e)"

fun dedupe ::
  "entry list \<Rightarrow> (string \<times> string \<times> string \<times> string \<times> string \<times> string) set \<Rightarrow> entry list" where
  "dedupe [] seen = []"
| "dedupe (e # es) seen =
     (if entry_key e \<in> seen then dedupe es seen else e # dedupe es (insert (entry_key e) seen))"

definition parse_cell_entries :: "string \<Rightarrow> string \<Rightarrow> entry list" where
  "parse_cell_entries t0 time_slot =
     (let t = normalize_space t0 True
      in if t = [] then []
         else if t = ''-'' \<or> t = em_dash then []
         else if normalize_day t \<noteq> None \<and> length (split_ws t) \<le> 2 then []
         else if re_fullmatch False TIME_RE t \<noteq> None then []
         else dedupe (concat (map (\<lambda>chunk. parse_chunk chunk time_slot) (split_cell_chunks t))) {})"

section \<open>Assembling entries\<close>

text \<open>\<open>grouped_entries\<close>: group \<open>\<mapsto>\<close> day \<open>\<mapsto>\<close> entries. The inner dictionaries are only read
  with \<open>.get(day, [])\<close> and written by appending, so a day without a key is a day with no
  entry.\<close>

type_synonym grouped = "int \<rightharpoonup> (string \<Rightarrow> entry list)"

record ParsedTimetable =
  by_group :: "int \<rightharpoonup> (string \<times> entry list) list"
  detected_groups :: "int list"

datatype TimetableParseError = NoTableFound | TableEmpty | NoGroupColumns

text \<open>\<open>sorted(set(xs))\<close>.\<close>

definition sorted_set :: "int list \<Rightarrow> int list" where
  "sorted_set xs = sort (remdups xs)"

definition day_entries :: "grouped \<Rightarrow> int \<Rightarrow> string \<Rightarrow> entry list" where
  "day_entries grouped_entries g day =
     (case grouped_entries g of None \<Rightarrow> [] | Some days \<Rightarrow> days day)"

definition group_days :: "grouped \<Rightarrow> int \<Rightarrow> (string \<times> entry list) list" where
  "group_days grouped_entries g =
     concat (map (\<lambda>day. if day_entries grouped_entries g day \<noteq> []
                         then [(day, day_entries grouped_entries g day)] else [])
                 DAY_ORDER)"

definition grouped_to_days :: "grouped \<Rightarrow> int list \<Rightarrow> (int \<rightharpoonup> (string \<times> entry list) list)" where
  "grouped_to_days grouped_entries target_groups =
     foldl (\<lambda>bg g. bg(g \<mapsto> group_days grouped_entries g)) Map.empty target_groups"

text \<open>\<open>grouped_entries[g][day].append(e)\<close> and \<open>.extend(es)\<close>.\<close>

definition extend_entries :: "grouped \<Rightarrow> int \<Rightarrow> string \<Rightarrow> entry list \<Rightarrow> grouped" where
  "extend_entries grouped_entries g day es =
     (let days = (case grouped_entries g of None \<Rightarrow> (\<lambda>_. []) | Some d \<Rightarrow> d)
      in grouped_entries(g \<mapsto> days(day := days day @ es)))"

section \<open>Explicit-header tables\<close>

definition header_name_to_key :: "string \<Rightarrow> string option" where
  "header_name_to_key v =
     (let folded = fold_text v;
          has = (\<lambda>ws. list_ex (\<lambda>w. re_search False (Seqs [WordB, w, WordB]) folded \<noteq> None) ws)
      in if has [Lit ''ziua'', Lit ''day''] then Some ''day''
         else if has [Lit ''ora'', Lit ''orele'', Lit ''time''] then Some ''time''
         else if has [Lit ''frecventa'', Lit ''frecventa'', Lit ''frequency''] then Some ''frequency''
         else if has [Lit ''sala'', Lit ''room''] then Some ''room''
         else if has [Seq (Lit ''tip'') (Opt (Lit ''ul'')), Lit ''type''] then Some ''type''
         else if has [Lit ''disciplina'', Lit ''materia'', Lit ''course''] then Some ''course''
         else if has [Seqs [Lit ''cadr'', Opt (Lit ''ul''), Plus ws, Lit ''didactic''],
                      Lit ''instructor'', Lit ''profesor''] then Some ''instructor''
         else None)"

definition extract_group_heading :: "string \<Rightarrow> int option" where
  "extract_group_heading v =
     (case re_search True GROUP_HEADING_RE v of
        None \<Rightarrow> None
      | Some m \<Rightarrow> (case py_int (group v m 1) of Inl _ \<Rightarrow> None | Inr n \<Rightarrow> Some n))"

definition extract_table_group :: "table \<Rightarrow> int option" where
  "extract_table_group t =
     (case (case caption t of
              None \<Rightarrow> None
            | Some c \<Rightarrow> extract_group_heading (normalize_space c False)) of
        Some g \<Rightarrow> Some g
      | None \<Rightarrow>
          (case first_some (\<lambda>r. extract_group_heading (normalize_space (tr_text r) False))
                           (take 3 (trs t)) of
             Some g \<Rightarrow> Some g
           | None \<Rightarrow>
               first_some (\<lambda>sb. case sb of
                                   SibTag t \<Rightarrow> extract_group_heading (normalize_space t False)
                                 | SibText \<Rightarrow> None)
                          (take 6 (previous_siblings t))))"

text \<open>The header mapping of one row: the first column of each recognised key.\<close>

definition header_mapping :: "string list \<Rightarrow> (string \<times> nat) list" where
  "header_mapping row =
     foldl (\<lambda>mapping (col, c).
              case header_name_to_key c of
                None \<Rightarrow> mapping
              | Some key \<Rightarrow> if key \<noteq> [] \<and> map_of mapping key = None then mapping @ [(key, col)] else mapping)
           [] (zip [0..<length row] row)"

text \<open>The scan of the first four rows: (\<open>best_header_idx\<close>, \<open>best_header_map\<close>,
  \<open>best_score\<close>).\<close>

definition best_header :: "string list list \<Rightarrow> int \<times> (string \<times> nat) list \<times> int" where
  "best_header grid =
     foldl (\<lambda>(best_idx, best_map, best_score) idx.
              let mapping = header_mapping (grid ! idx); score = int (length mapping)
              in if score > best_score then (int idx, mapping, score)
                 else (best_idx, best_map, best_score))
           (- 1, [], - 1) [0..<min 4 (length grid)]"

definition mapped_value :: "(string \<times> nat) list \<Rightarrow> string \<Rightarrow> string list \<Rightarrow> string" where
  "mapped_value header_map key row =
     (case map_of header_map key of
        Some col \<Rightarrow> if col < length row then row ! col else []
      | None \<Rightarrow> [])"

definition or_else :: "string \<Rightarrow> string \<Rightarrow> string" where
  "or_else a b = (if a \<noteq> [] then a else b)"

text \<open>One row below the header: its day and its entry, or nothing.\<close>

definition parse_group_row :: "nat \<Rightarrow> nat \<Rightarrow> (string \<times> nat) list \<Rightarrow> string list \<Rightarrow> (string \<times> entry) option" where
  "parse_group_row day_col time_col header_map row =
     (if day_col \<ge> length row \<or> time_col \<ge> length row then None
      else case normalize_day (row ! day_col) of
             None \<Rightarrow> None
           | Some day \<Rightarrow>
               if day = [] then None
               else (case re_search False TIME_RE (row ! time_col) of
                       None \<Rightarrow> None
                     | Some m \<Rightarrow>
                         (let time_slot = normalize_time (group (row ! time_col) m 1);
                              frequency_value = mapped_value header_map ''frequency'' row;
                              type_value = mapped_value header_map ''type'' row;
                              room_value = mapped_value header_map ''room'' row;
                              course_value = mapped_value header_map ''course'' row;
                              instructor_value = mapped_value header_map ''instructor'' row;
                              row_blob = join '' '' (filter (\<lambda>c. c \<noteq> []) row);
                              lines_for_fallback = filter (\<lambda>c. c \<noteq> []) row;
                              e = \<lparr>time = time_slot,
                                   frequency = detect_frequency (or_else frequency_value row_blob),
                                   course = or_else (normalize_space course_value False)
                                                    (detect_course lines_for_fallback),
                                   etype = detect_type (or_else type_value row_blob),
                                   room = or_else (normalize_space room_value False)
                                                  (detect_room lines_for_fallback),
                                   instructor = or_else (normalize_space instructor_value False)
                                                        (detect_instructor lines_for_fallback)\<rparr>
                          in if course e \<noteq> [] then Some (day, e) else None)))"

definition parse_group_table_rows :: "string list list \<Rightarrow> (string \<times> entry) list \<times> int" where
  "parse_group_table_rows grid =
     (case best_header grid of
        (best_header_idx, best_header_map, best_score) \<Rightarrow>
          if best_header_map = [] then ([], - 1)
          else (case (map_of best_header_map ''day'', map_of best_header_map ''time'') of
                  (Some day_col, Some time_col) \<Rightarrow>
                    (List.map_filter (parse_group_row day_col time_col best_header_map)
                                     (drop (nat (best_header_idx + 1)) grid),
                     best_header_idx)
                | _ \<Rightarrow> ([], - 1)))"

section \<open>The sectioned layout\<close>

text \<open>The state of the loop over the nodes: \<open>grouped_entries\<close>, \<open>detected_groups\<close> and
  \<open>current_group\<close>.\<close>

type_synonym section_state = "grouped \<times> int list \<times> int option"

text \<open>\<open>a or b\<close> for a group that may be \<open>None\<close>: the group 0 is false as well.\<close>

definition group_or :: "int option \<Rightarrow> int option \<Rightarrow> int option" where
  "group_or a b = (case a of Some g \<Rightarrow> if g \<noteq> 0 then Some g else b | None \<Rightarrow> b)"

definition section_table :: "int list \<Rightarrow> section_state \<Rightarrow> table \<Rightarrow> section_state" where
  "section_table expected_groups st t =
     (case st of
        (grouped_entries, detected, current_group) \<Rightarrow>
          (case group_or (extract_table_group t) current_group of
             None \<Rightarrow> st
           | Some table_group \<Rightarrow>
               if expected_groups \<noteq> [] \<and> table_group \<notin> set expected_groups then st
               else (let grid = expand_table t
                     in if grid = [] then st
                        else (let parsed_rows = fst (parse_group_table_rows grid)
                              in if parsed_rows = [] then st
                                 else (foldl (\<lambda>ge (day, e). extend_entries ge table_group day [e])
                                             grouped_entries parsed_rows,
                                       List.insert table_group detected,
                                       current_group)))))"

definition section_step :: "int list \<Rightarrow> section_state \<Rightarrow> node \<Rightarrow> section_state" where
  "section_step expected_groups st n =
     (case n of
        Block t \<Rightarrow>
          (case st of
             (grouped_entries, detected, current_group) \<Rightarrow>
               (case extract_group_heading (normalize_space t False) of
                  Some g \<Rightarrow> (grouped_entries, detected, Some g)
                | None \<Rightarrow> st))
      | Table t \<Rightarrow> section_table expected_groups st t)"

definition parse_group_section_layout :: "node list \<Rightarrow> int list \<Rightarrow> ParsedTimetable option" where
  "parse_group_section_layout soup expected_groups =
     (case foldl (section_step expected_groups) (Map.empty, [], None) soup of
        (grouped_entries, detected, current_group) \<Rightarrow>
          if detected = [] then None
          else (let target_groups = (if expected_groups \<noteq> [] then sorted_set expected_groups
                                     else sorted_set detected)
                in Some \<lparr>by_group = grouped_to_days grouped_entries target_groups,
                          detected_groups = sorted_set detected\<rparr>))"

section \<open>The columnar layout\<close>

definition main_table_score :: "table \<Rightarrow> int" where
  "main_table_score t =
     (let txt = fold_text (table_text t);
          day_hits = int (length (filter (\<lambda>(token, canonical). contains txt token) DAY_ALIASES));
          group_hits = int (length (finditer False GROUP_RE txt));
          row_count = int (length (trs t))
      in day_hits * 10 + min group_hits 40 + row_count)"

text \<open>\<open>max(tables, key=...)\<close>: the first table with the highest score.\<close>

fun max_by :: "('a \<Rightarrow> int) \<Rightarrow> 'a \<Rightarrow> 'a list \<Rightarrow> 'a" where
  "max_by f best [] = best"
| "max_by f best (x # xs) = max_by f (if f x > f best then x else best) xs"

definition select_main_table :: "node list \<Rightarrow> TimetableParseError + table" where
  "select_main_table soup =
     (case find_all_tables soup of
        [] \<Rightarrow> Inl NoTableFound
      | t # ts \<Rightarrow> Inr (max_by main_table_score t ts))"

text \<open>\<open>[int(group) for group in GROUP_RE.findall(cell_text)]\<close>.\<close>

definition group_matches :: "string \<Rightarrow> int list" where
  "group_matches cell_text =
     map (\<lambda>m. digits_value (group cell_text m 1)) (finditer False GROUP_RE cell_text)"

definition extract_group_from_header :: "string \<Rightarrow> int list \<Rightarrow> int option" where
  "extract_group_from_header cell_text expected_groups =
     (let matches = group_matches cell_text
      in if matches = [] then None
         else if expected_groups \<noteq> [] then find (\<lambda>m. m \<in> set expected_groups) matches
         else if length matches = 1 then Some (hd matches)
         else None)"

text \<open>The mapping of one row: column \<open>\<mapsto>\<close> group, in the order of the columns.\<close>

definition row_group_mapping :: "string list \<Rightarrow> int list \<Rightarrow> (nat \<times> int) list" where
  "row_group_mapping row expected_groups =
     List.map_filter (\<lambda>(col, c). case extract_group_from_header c expected_groups of
                                    None \<Rightarrow> None | Some g \<Rightarrow> Some (col, g))
                     (zip [0..<length row] row)"

definition detect_group_columns :: "string list list \<Rightarrow> int list \<Rightarrow> (nat \<times> int) list" where
  "detect_group_columns grid expected_groups =
     (let best0 = foldl (\<lambda>best row. let mapping = row_group_mapping row expected_groups
                                     in if length mapping > length best then mapping else best)
                        [] (take 12 grid);
          best_mapping = (if expected_groups \<noteq> []
                          then filter (\<lambda>(col, g). g \<in> set expected_groups) best0 else best0)
      in if best_mapping \<noteq> [] then best_mapping
         else if expected_groups \<noteq> [] \<and> grid \<noteq> []
         then (let first_row_len = length (hd grid);
                   columns = [first_row_len - length (remdups expected_groups)..<first_row_len]
               in zip columns (sorted_set expected_groups))
         else [])"

text \<open>The row walk: \<open>grouped_entries\<close> and \<open>current_day\<close>.\<close>

definition walk_cell :: "string list \<Rightarrow> string \<Rightarrow> string \<Rightarrow> grouped \<Rightarrow> nat \<times> int \<Rightarrow> grouped" where
  "walk_cell row current_day time_slot grouped_entries cg =
     (case cg of
        (column, g) \<Rightarrow>
          if grouped_entries g = None then grouped_entries
          else if column \<ge> length row then grouped_entries
          else (let parsed_entries = parse_cell_entries (row ! column) time_slot
                in if parsed_entries \<noteq> [] then extend_entries grouped_entries g current_day parsed_entries
                   else grouped_entries))"

definition walk_row :: "(nat \<times> int) list \<Rightarrow> grouped \<times> string option \<Rightarrow> string list \<Rightarrow> grouped \<times> string option" where
  "walk_row group_columns st row =
     (case st of
        (grouped_entries, current_day0) \<Rightarrow>
          (let row_day = first_some (\<lambda>c. case normalize_day c of
                                            Some d \<Rightarrow> if d \<noteq> [] then Some d else None
                                          | None \<Rightarrow> None) row;
               current_day = (case row_day of Some d \<Rightarrow> Some d | None \<Rightarrow> current_day0)
           in case current_day of
                None \<Rightarrow> (grouped_entries, current_day)
              | Some day \<Rightarrow>
                  (case extract_time row of
                     None \<Rightarrow> (grouped_entries, current_day)
                   | Some time_slot \<Rightarrow>
                       if time_slot = [] then (grouped_entries, current_day)
                       else (foldl (walk_cell row day time_slot) grouped_entries group_columns,
                             current_day))))"

definition parse_columnar_layout :: "node list \<Rightarrow> int list \<Rightarrow> TimetableParseError + ParsedTimetable" where
  "parse_columnar_layout soup expected_groups =
     (case select_main_table soup of
        Inl err \<Rightarrow> Inl err
      | Inr t \<Rightarrow>
          (let grid = expand_table t
           in if grid = [] then Inl TableEmpty
              else (let group_columns = detect_group_columns grid expected_groups
                    in if group_columns = [] then Inl NoGroupColumns
                       else (let detected = sorted_set (map snd group_columns);
                                 target_groups = (if expected_groups \<noteq> [] then sorted_set expected_groups
                                                  else sorted_set detected);
                                 grouped0 = map_of (map (\<lambda>g. (g, (\<lambda>day. []))) target_groups);
                                 grouped_entries = fst (foldl (walk_row group_columns) (grouped0, None) grid)
                             in Inr \<lparr>by_group = grouped_to_days grouped_entries target_groups,
                                     detected_groups = detected\<rparr>))))"

definition parse_timetable_html :: "node list \<Rightarrow> int list \<Rightarrow> TimetableParseError + ParsedTimetable" where
  "parse_timetable_html soup expected_groups =
     (case parse_group_section_layout soup expected_groups of
        Some grouped_layout \<Rightarrow> Inr grouped_layout
      | None \<Rightarrow> parse_columnar_layout soup expected_groups)"

section \<open>Example tables\<close>

text \<open>A cell without span attributes, and a table of such cells without caption and
  without previous siblings; the text of a row and of the table joins the cells with a
  blank, as \<open>get_text(" ", strip=True)\<close> does.\<close>

definition plain_cell :: "string \<Rightarrow> cell" where
  "plain_cell s = \<lparr>cell_raw = s, rowspan = None, colspan = None\<rparr>"

definition plain_table :: "string list list \<Rightarrow> table" where
  "plain_table rows =
     \<lparr>caption = None, table_text = join '' '' (map (join '' '') rows),
      trs = map (\<lambda>r. \<lparr>tr_text = join '' '' r, tr_cells = map plain_cell r\<rparr>) rows,
      previous_siblings = []\<rparr>"

section \<open>The invariant of the sectioned walk\<close>


section \<open>Sorted sets and result keys\<close>

lemma set_sorted_set: "set (sorted_set xs) = set xs"
  by (simp add: sorted_set_def)

lemma strict_sorted_set: "sorted_wrt (<) (sorted_set xs)"
  by (simp add: sorted_set_def strict_sorted_iff)

lemma distinct_sorted_set: "distinct (sorted_set xs)"
  by (simp add: sorted_set_def)

lemma dom_foldl_upd: "dom (foldl (\<lambda>bg g. bg(g \<mapsto> f g)) m tg) = dom m \<union> set tg"
  by (induction tg arbitrary: m) auto

lemma dom_grouped_to_days: "dom (grouped_to_days ge tg) = set tg"
  by (simp add: grouped_to_days_def dom_foldl_upd)

section \<open>Group-column detection with an expected set\<close>

text \<open>
  Claim C7, as stated: with an expected-group set, a header cell with several numeric matches
  that belong to the set is discarded from the column mapping. The code keeps it: the cell
  \<open>511 512\<close> with the expected groups 511 and 512 is mapped to 511, the first match.
\<close>

theorem multi_match_header_cell_kept:
  "extract_group_from_header ''511 512'' [511, 512] = Some 511
   \<and> detect_group_columns [[''511 512'']] [511, 512] = [(0, 511)]"
  by code_simp

text \<open>
  Claim C7, amended: with a non-empty expected-group set, a header cell resolves to the first
  of its numeric matches that belongs to the set (and to nothing when none does); a cell with
  several numeric matches is discarded only when no expected set is supplied.
\<close>

theorem extract_group_from_header_first_expected:
  "(expected \<noteq> [] \<longrightarrow>
      extract_group_from_header c expected = find (\<lambda>m. m \<in> set expected) (group_matches c))
   \<and> (length (group_matches c) > 1 \<longrightarrow> extract_group_from_header c [] = None)"
  by (auto simp: extract_group_from_header_def Let_def)

theorem extract_group_from_header_first_expected_witness:
  "extract_group_from_header ''512 511'' [511, 512] = Some 512
   \<and> extract_group_from_header ''512 511'' [] = None"
proof -
  have a: "group_matches ''512 511'' = [512, 511]" by code_simp
  show ?thesis
    using extract_group_from_header_first_expected [of "[511, 512]" "''512 511''"] a by simp
qed

section \<open>Span attributes\<close>

lemma length_expand_rows: "length (expand_rows rs sp) = length rs"
  by (induction rs arbitrary: sp) (auto split: prod.splits)

text \<open>
  Claim C9: a \<open>rowspan\<close> or \<open>colspan\<close> attribute that is missing, that \<open>int\<close> rejects, or
  whose value is less than 1 is a span of 1; every span is at least 1; and the grid has one
  row for each \<open>tr\<close> of the table whatever the attributes are (grid construction has no
  failing path).
\<close>

theorem cell_span_total:
  "cell_span None = 1
   \<and> (py_int s1 = Inl e \<longrightarrow> cell_span (Some s1) = 1)
   \<and> (py_int s2 = Inr n \<and> n < 1 \<longrightarrow> cell_span (Some s2) = 1)
   \<and> 1 \<le> cell_span a
   \<and> length (expand_table t) = length (trs t)"
  by (auto simp: cell_span_def expand_table_def Let_def length_expand_rows
           split: option.splits sum.splits)

theorem cell_span_total_witness:
  "cell_span (Some ''x'') = 1 \<and> cell_span (Some ''-3'') = 1"
proof -
  have a: "py_int ''x'' = Inl ValueError" by code_simp
  have b: "py_int ''-3'' = Inr (- 3)" by code_simp
  show ?thesis
    using cell_span_total [of "''x''" ValueError "''-3''" "- 3"] a b by simp
qed

section \<open>Deduplication\<close>

lemma dedupe_distinct:
  "distinct (map entry_key (dedupe es seen)) \<and> entry_key ` set (dedupe es seen) \<inter> seen = {}"
proof (induction es arbitrary: seen)
  case Nil
  show ?case by simp
next
  case (Cons e es)
  show ?case
  proof (cases "entry_key e \<in> seen")
    case True
    then show ?thesis using Cons.IH [of seen] by simp
  next
    case False
    then show ?thesis using Cons.IH [of "insert (entry_key e) seen"] by auto
  qed
qed

lemma dedupe_idem: "dedupe (dedupe es seen) seen = dedupe es seen"
proof (induction es arbitrary: seen)
  case Nil
  show ?case by simp
next
  case (Cons e es)
  show ?case
  proof (cases "entry_key e \<in> seen")
    case True
    then show ?thesis using Cons.IH [of seen] by simp
  next
    case False
    then show ?thesis using Cons.IH [of "insert (entry_key e) seen"] by simp
  qed
qed

text \<open>
  Claim C8: \<open>_parse_cell_entries\<close> is a function of the cell text and the time slot alone (it
  reads no state, so two calls on the same text return the same list), and its result is
  deduplicated: no two entries of it have the same (time, frequency, course, type, room,
  instructor) tuple, and deduplicating it again changes nothing.
\<close>

theorem parse_cell_entries_deduplicated:
  "distinct (map entry_key (parse_cell_entries t ts))
   \<and> distinct (parse_cell_entries t ts)
   \<and> dedupe (parse_cell_entries t ts) {} = parse_cell_entries t ts"
proof -
  have "distinct (map entry_key (parse_cell_entries t ts))"
    by (simp add: parse_cell_entries_def Let_def dedupe_distinct)
  moreover from this have "distinct (parse_cell_entries t ts)"
    by (simp add: distinct_map)
  moreover have "dedupe (parse_cell_entries t ts) {} = parse_cell_entries t ts"
    by (simp add: parse_cell_entries_def Let_def dedupe_idem)
  ultimately show ?thesis by simp
qed

section \<open>The detected groups are sorted\<close>

lemma section_detected:
  "parse_group_section_layout soup eg = Some p \<Longrightarrow> \<exists>d. detected_groups p = sorted_set d"
  by (auto simp: parse_group_section_layout_def Let_def split: prod.splits if_splits)

lemma columnar_detected:
  "parse_columnar_layout soup eg = Inr p \<Longrightarrow> \<exists>d. detected_groups p = sorted_set d"
  by (auto simp: parse_columnar_layout_def Let_def split: sum.splits if_splits)

text \<open>
  Claim C10: in the sectioned layout, in the columnar layout, and so in the result of
  \<open>parse_timetable_html\<close>, \<open>detected_groups\<close> is strictly ascending and has no duplicate.
\<close>

theorem detected_groups_strictly_ascending:
  "(parse_group_section_layout soup1 eg1 = Some p \<longrightarrow>
      sorted_wrt (<) (detected_groups p) \<and> distinct (detected_groups p))
   \<and> (parse_columnar_layout soup2 eg2 = Inr q \<longrightarrow>
        sorted_wrt (<) (detected_groups q) \<and> distinct (detected_groups q))
   \<and> (parse_timetable_html soup eg = Inr r \<longrightarrow>
        sorted_wrt (<) (detected_groups r) \<and> distinct (detected_groups r))"
proof -
  have s: "\<And>d. sorted_wrt (<) (sorted_set d) \<and> distinct (sorted_set d)"
    using strict_sorted_set distinct_sorted_set by blast
  have a: "parse_group_section_layout soup' eg' = Some p \<Longrightarrow>
           sorted_wrt (<) (detected_groups p) \<and> distinct (detected_groups p)" for p soup' eg'
    using section_detected s by metis
  have b: "parse_columnar_layout soup' eg' = Inr q \<Longrightarrow>
           sorted_wrt (<) (detected_groups q) \<and> distinct (detected_groups q)" for q soup' eg'
    using columnar_detected s by metis
  have c: "parse_timetable_html soup eg = Inr r \<Longrightarrow>
           sorted_wrt (<) (detected_groups r) \<and> distinct (detected_groups r)"
    using a b by (auto simp: parse_timetable_html_def split: option.splits)
  show ?thesis using a b c by blast
qed

section \<open>Evaluated examples\<close>

lemma rejected_511:
  "fst (parse_group_table_rows (expand_table (plain_table [[''511'']]))) = []"
  by code_simp

lemma header_511: "header_mapping [''511''] = []"
  by code_simp

lemma columnar_511_expected:
  "(case parse_columnar_layout [Table (plain_table [[''511'']])] [511, 999] of
      Inl err \<Rightarrow> False
    | Inr p \<Rightarrow> detected_groups p = [511] \<and> by_group p 999 = Some [] \<and> by_group p 511 = Some [])"
  by code_simp

lemma columnar_511_headed:
  "(case parse_columnar_layout [Block ''Grupa 211'', Table (plain_table [[''511'']])] [] of
      Inl err \<Rightarrow> False
    | Inr p \<Rightarrow> detected_groups p = [511] \<and> by_group p 511 = Some [])"
  by code_simp

lemma heading_211: "extract_group_heading (normalize_space ''Grupa 211'' False) = Some 211"
  by code_simp

lemma table_group_none:
  "extract_table_group (plain_table [[''Ziua'', ''Ora''], [''Luni'', ''8-10'']]) = None"
  by code_simp

lemma grid_luni:
  "expand_table (plain_table [[''Ziua'', ''Ora''], [''Luni'', ''8-10'']])
   = [[''Ziua'', ''Ora''], [''Luni'', ''8-10'']]"
  by code_simp

lemma header_ziua_ora: "header_mapping [''Ziua'', ''Ora''] = [(''day'', 0), (''time'', 1)]"
  by code_simp

lemma header_luni: "header_mapping [''Luni'', ''8-10''] = []"
  by code_simp

lemma day_luni: "normalize_day ''Luni'' = Some ''monday''"
  by code_simp

lemma time_8_10:
  "re_search False TIME_RE ''8-10'' = Some \<lparr>m_start = 0, m_end = 4, m_groups = [(1, 0, 4)]\<rparr>"
  by code_simp

lemma best_header_luni:
  "best_header [[''Ziua'', ''Ora''], [''Luni'', ''8-10'']] = (0, [(''day'', 0), (''time'', 1)], 2)"
  by (simp add: best_header_def header_ziua_ora header_luni upt_rec)




section \<open>The keys of the result\<close>

lemma section_by_group:
  "parse_group_section_layout soup eg = Some p \<Longrightarrow>
   dom (by_group p) = (if eg \<noteq> [] then set eg else set (detected_groups p))"
  by (clarsimp simp: parse_group_section_layout_def Let_def dom_grouped_to_days set_sorted_set
               split: prod.splits if_splits)

lemma columnar_by_group:
  "parse_columnar_layout soup eg = Inr p \<Longrightarrow>
   dom (by_group p) = (if eg \<noteq> [] then set eg else set (detected_groups p))"
  by (clarsimp simp: parse_columnar_layout_def Let_def dom_grouped_to_days set_sorted_set
               split: sum.splits if_splits)

section \<open>Where the parser raises\<close>

lemma columnar_error:
  "(parse_columnar_layout soup eg = Inl e) =
     (find_all_tables soup = [] \<and> e = NoTableFound
      \<or> (\<exists>t. select_main_table soup = Inr t
              \<and> (expand_table t = [] \<and> e = TableEmpty
                  \<or> expand_table t \<noteq> [] \<and> detect_group_columns (expand_table t) eg = []
                     \<and> e = NoGroupColumns)))"
  by (auto simp: parse_columnar_layout_def select_main_table_def Let_def
           split: sum.splits list.splits if_splits)

lemma walk_row_no_time: "extract_time row = None \<Longrightarrow> fst (walk_row gc (ge, cd) row) = ge"
  by (simp add: walk_row_def Let_def split: option.splits)

lemma walk_cell_no_entries:
  "parse_cell_entries (row ! col) ts = [] \<Longrightarrow> walk_cell row day ts ge (col, g) = ge"
  by (simp add: walk_cell_def Let_def)

lemma section_table_no_rows:
  "fst (parse_group_table_rows (expand_table t)) = [] \<Longrightarrow> section_table eg st t = st"
  by (simp add: section_table_def Let_def split: prod.splits option.splits)

text \<open>
  Claim C2: \<open>parse_timetable_html\<close> raises exactly when the sectioned layout yields nothing
  and the page has no table (\<open>NoTableFound\<close>), or the grid of the selected table is empty
  (\<open>TableEmpty\<close>), or no group column can be resolved in it (\<open>NoGroupColumns\<close>). A row
  without a time slot and a cell without entries leave the collected entries as they are, and
  a sectioned table whose rows give no entry leaves the state of the sectioned walk as it is:
  none of them raises.
\<close>

theorem parse_error_page_level:
  "(parse_timetable_html soup eg = Inl e) =
     (parse_group_section_layout soup eg = None
      \<and> (find_all_tables soup = [] \<and> e = NoTableFound
         \<or> (\<exists>t. select_main_table soup = Inr t
                 \<and> (expand_table t = [] \<and> e = TableEmpty
                     \<or> expand_table t \<noteq> [] \<and> detect_group_columns (expand_table t) eg = []
                        \<and> e = NoGroupColumns))))
   \<and> (extract_time row = None \<longrightarrow> fst (walk_row gc (ge, cd) row) = ge)
   \<and> (parse_cell_entries (row ! col) ts = [] \<longrightarrow> walk_cell row day ts ge (col, g) = ge)
   \<and> (fst (parse_group_table_rows (expand_table t0)) = [] \<longrightarrow> section_table eg st t0 = st)"
proof -
  have "(parse_timetable_html soup eg = Inl e) =
        (parse_group_section_layout soup eg = None \<and> parse_columnar_layout soup eg = Inl e)"
    by (auto simp: parse_timetable_html_def split: option.splits)
  then show ?thesis
    using columnar_error [of soup eg e] walk_row_no_time walk_cell_no_entries section_table_no_rows
    by simp
qed

theorem parse_error_page_level_witness:
  "parse_timetable_html [] [] = Inl NoTableFound
   \<and> fst (walk_row [(0, 511)] (Map.empty, None) [''-'']) = Map.empty
   \<and> walk_cell [''-''] ''monday'' ''8-10'' Map.empty (0, 511) = Map.empty
   \<and> section_table [] (Map.empty, [], None) (plain_table [[''511'']]) = (Map.empty, [], None)"
proof -
  have a: "parse_group_section_layout [] [] = None"
    by (simp add: parse_group_section_layout_def)
  have b: "find_all_tables [] = []"
    by (simp add: find_all_tables_def)
  have c: "extract_time [''-''] = None" by code_simp
  have d: "parse_cell_entries ([''-''] ! 0) ''8-10'' = []" by code_simp
  show ?thesis
    using parse_error_page_level
            [where soup = "[]" and eg = "[]" and e = NoTableFound and row = "[''-'']"
               and gc = "[(0, 511)]" and ge = Map.empty and cd = None and col = 0
               and ts = "''8-10''" and day = "''monday''" and g = 511
               and ?t0.0 = "plain_table [[''511'']]" and st = "(Map.empty, [], None)"]
          a b c d rejected_511
    by simp
qed

section \<open>Tables without a day and time header\<close>

lemma best_header_aux:
  "foldl (\<lambda>(best_idx, best_map, best_score) idx.
              let mapping = header_mapping (grid ! idx); score = int (length mapping)
              in if score > best_score then (int idx, mapping, score)
                 else (best_idx, best_map, best_score)) (bi, bm, bs) js = (i', m', s')
   \<Longrightarrow> m' = bm \<or> (\<exists>j \<in> set js. m' = header_mapping (grid ! j))"
proof (induction js arbitrary: bi bm bs)
  case Nil
  then show ?case by simp
next
  case (Cons j js)
  show ?case
  proof (cases "int (length (header_mapping (grid ! j))) > bs")
    case True
    then show ?thesis
      using Cons.IH [of "int j" "header_mapping (grid ! j)" "int (length (header_mapping (grid ! j)))"]
            Cons.prems by (auto simp: Let_def)
  next
    case False
    then show ?thesis
      using Cons.IH [of bi bm bs] Cons.prems by (auto simp: Let_def)
  qed
qed

lemma best_header_row:
  "best_header grid = (i', m', s') \<Longrightarrow>
   m' = [] \<or> (\<exists>j < min 4 (length grid). m' = header_mapping (grid ! j))"
  using best_header_aux [of grid "- 1" "[]" "- 1" "[0..<min 4 (length grid)]" i' m' s']
  by (auto simp: best_header_def)

lemma rejected_without_day_time:
  assumes "\<forall>j < min 4 (length grid).
             map_of (header_mapping (grid ! j)) ''day'' = None
             \<or> map_of (header_mapping (grid ! j)) ''time'' = None"
  shows "fst (parse_group_table_rows grid) = []"
proof -
  obtain i' m' s' where bh: "best_header grid = (i', m', s')"
    by (cases "best_header grid") auto
  from best_header_row [OF bh] assms
  have "m' = [] \<or> map_of m' ''day'' = None \<or> map_of m' ''time'' = None" by auto
  then show ?thesis
    using bh by (auto simp: parse_group_table_rows_def split: option.splits)
qed

lemma section_fold_rejected:
  "\<forall>t \<in> set (find_all_tables soup). fst (parse_group_table_rows (expand_table t)) = [] \<Longrightarrow>
   fst (snd (foldl (section_step eg) (ge, [], cg) soup)) = []"
proof (induction soup arbitrary: ge cg)
  case Nil
  then show ?case by simp
next
  case (Cons n soup)
  show ?case
  proof (cases n)
    case (Block b)
    then show ?thesis
      using Cons.IH [of ge "Some (the (extract_group_heading (normalize_space b False)))"]
            Cons.IH [of ge cg] Cons.prems
      by (auto simp: section_step_def find_all_tables_def split: option.splits)
  next
    case (Table t)
    then have "section_table eg (ge, [], cg) t = (ge, [], cg)"
      using Cons.prems section_table_no_rows by (simp add: find_all_tables_def)
    then show ?thesis
      using Table Cons.IH [of ge cg] Cons.prems
      by (simp add: section_step_def find_all_tables_def)
  qed
qed

lemma section_none_rejected:
  "\<forall>t \<in> set (find_all_tables soup). fst (parse_group_table_rows (expand_table t)) = [] \<Longrightarrow>
   parse_group_section_layout soup eg = None"
  using section_fold_rejected [of soup eg Map.empty None]
  by (auto simp: parse_group_section_layout_def split: prod.splits)

lemma section_none_511: "parse_group_section_layout [Table (plain_table [[''511'']])] eg = None"
  using rejected_511 by (intro section_none_rejected) (simp add: find_all_tables_def)

text \<open>
  Claim C4, as stated: with a non-empty expected set the keys of \<open>by_group\<close> are the groups
  of the expected set that the detector found. The code keeps every expected group as a key:
  for a table whose only header is \<open>511\<close> and the expected groups 511 and 999, the detected
  groups are [511] and 999 is a key of \<open>by_group\<close>, with no day.
\<close>

theorem by_group_keeps_undetected_expected_group:
  "(case parse_timetable_html [Table (plain_table [[''511'']])] [511, 999] of
      Inl err \<Rightarrow> False
    | Inr p \<Rightarrow> detected_groups p = [511] \<and> by_group p 999 = Some [])"
  using columnar_511_expected section_none_511 [of "[511, 999]"]
  by (simp add: parse_timetable_html_def split: sum.splits)

text \<open>
  Claim C4, amended: when the caller supplies a non-empty expected-group set, the key set of
  \<open>by_group\<close> is the expected set itself (an expected group that was not detected is a key
  with no day); when no expected set is supplied, the keys are the detected groups.
\<close>

theorem by_group_keys:
  "parse_timetable_html soup eg = Inr p \<Longrightarrow>
   dom (by_group p) = (if eg \<noteq> [] then set eg else set (detected_groups p))"
  using section_by_group columnar_by_group
  by (auto simp: parse_timetable_html_def split: option.splits)

theorem by_group_keys_witness:
  "dom (by_group (projr (parse_timetable_html [Table (plain_table [[''511'']])] [511, 999])))
   = {511, 999}"
proof -
  obtain p where p: "parse_timetable_html [Table (plain_table [[''511'']])] [511, 999] = Inr p"
    using columnar_511_expected section_none_511 [of "[511, 999]"]
    by (auto simp: parse_timetable_html_def split: sum.splits)
  show ?thesis using by_group_keys [OF p] p by auto
qed

text \<open>
  Claim C5, as stated: when a table rejected by the explicit-header parsing is the only
  candidate of the page, the parse raises. The code falls through to the columnar layout,
  which may succeed: the page with the heading \<open>Grupa 211\<close> and a table whose only cell is
  \<open>511\<close> has no day and time header, its table gives no entry, and the parse returns a
  timetable with the detected group 511.
\<close>

theorem rejected_only_table_parses:
  "fst (parse_group_table_rows (expand_table (plain_table [[''511'']]))) = []
   \<and> (case parse_timetable_html [Block ''Grupa 211'', Table (plain_table [[''511'']])] [] of
         Inl err \<Rightarrow> False
       | Inr p \<Rightarrow> detected_groups p = [511] \<and> by_group p 511 = Some [])"
proof -
  have "parse_group_section_layout [Block ''Grupa 211'', Table (plain_table [[''511'']])] [] = None"
    using rejected_511 by (intro section_none_rejected) (simp add: find_all_tables_def)
  then show ?thesis
    using columnar_511_headed rejected_511 by (simp add: parse_timetable_html_def split: sum.splits)
qed

text \<open>
  Claim C5, amended: the explicit-header parsing gives no entry for a grid none of whose
  first 4 rows recognises both a day and a time header; and when every table of the page
  gives no entry in this way, the parse is the parse of the columnar layout (which raises
  only for a page without table, an empty grid or unresolvable group columns).
\<close>

theorem header_rejection_falls_through:
  "((\<forall>j < min 4 (length grid).
        map_of (header_mapping (grid ! j)) ''day'' = None
        \<or> map_of (header_mapping (grid ! j)) ''time'' = None)
     \<longrightarrow> fst (parse_group_table_rows grid) = [])
   \<and> ((\<forall>t \<in> set (find_all_tables soup). fst (parse_group_table_rows (expand_table t)) = [])
        \<longrightarrow> parse_timetable_html soup eg = parse_columnar_layout soup eg)"
  using rejected_without_day_time section_none_rejected
  by (auto simp: parse_timetable_html_def)

theorem header_rejection_falls_through_witness:
  "fst (parse_group_table_rows [[''511'']]) = []
   \<and> parse_timetable_html [Table (plain_table [[''511'']])] [511, 999]
     = parse_columnar_layout [Table (plain_table [[''511'']])] [511, 999]"
proof -
  have a: "\<forall>j < min 4 (length [[''511'']]).
             map_of (header_mapping ([[''511'']] ! j)) ''day'' = None
             \<or> map_of (header_mapping ([[''511'']] ! j)) ''time'' = None"
    by (simp add: header_511)
  have b: "\<forall>t \<in> set (find_all_tables [Table (plain_table [[''511'']])]).
             fst (parse_group_table_rows (expand_table t)) = []"
    using rejected_511 by (simp add: find_all_tables_def)
  show ?thesis
    using header_rejection_falls_through
            [of "[[''511'']]" "[Table (plain_table [[''511'']])]" "[511, 999]"] a b
    by blast
qed

section \<open>The course of an entry\<close>

lemma detect_course_cases:
  "detect_course lines = ''Unknown''
   \<or> (\<exists>l \<in> set lines. detect_course lines = strip_inline_metadata l
         \<and> strip_inline_metadata l \<noteq> []
         \<and> (\<not> is_formation_line l \<or> \<not> is_formation_line (strip_inline_metadata l)))"
  by (auto simp: detect_course_def find_Some_iff split: option.splits)

lemma detect_course_nonempty: "detect_course lines \<noteq> []"
  using detect_course_cases [of lines] by auto


















section \<open>A page in the sectioned layout\<close>

lemma parse_group_row_Some:
  "dc < length row \<Longrightarrow> tc < length row \<Longrightarrow> normalize_day (row ! dc) = Some d \<Longrightarrow> d \<noteq> []
   \<Longrightarrow> re_search False TIME_RE (row ! tc) = Some m
   \<Longrightarrow> \<exists>e. parse_group_row dc tc hm row = Some (d, e)"
  by (simp add: parse_group_row_def Let_def or_else_def detect_course_nonempty)

lemma rows_luni: "fst (parse_group_table_rows [[''Ziua'', ''Ora''], [''Luni'', ''8-10'']]) \<noteq> []"
proof -
  obtain e where
    "parse_group_row 0 1 [(''day'', 0), (''time'', 1)] [''Luni'', ''8-10''] = Some (''monday'', e)"
    using parse_group_row_Some [of 0 "[''Luni'', ''8-10'']" 1 "''monday''" _ "[(''day'', 0), (''time'', 1)]"]
          day_luni time_8_10 by auto
  then show ?thesis
    by (simp add: parse_group_table_rows_def best_header_luni List.map_filter_simps)
qed

lemma sectioned_luni:
  "\<exists>p. parse_group_section_layout
          [Block ''Grupa 211'', Table (plain_table [[''Ziua'', ''Ora''], [''Luni'', ''8-10'']])] [] = Some p
       \<and> detected_groups p = [211]"
  using rows_luni
  by (simp add: parse_group_section_layout_def section_step_def section_table_def heading_211
                table_group_none grid_luni group_or_def Let_def sorted_set_def split: prod.splits)

theorem detected_groups_strictly_ascending_witness:
  "(\<exists>p. parse_group_section_layout
          [Block ''Grupa 211'', Table (plain_table [[''Ziua'', ''Ora''], [''Luni'', ''8-10'']])] [] = Some p
        \<and> sorted_wrt (<) (detected_groups p))
   \<and> sorted_wrt (<) (detected_groups (projr
         (parse_columnar_layout [Table (plain_table [[''511'']])] [511, 999])))
   \<and> sorted_wrt (<) (detected_groups (projr
         (parse_timetable_html [Table (plain_table [[''511'']])] [511, 999])))"
proof -
  obtain p where p: "parse_group_section_layout
          [Block ''Grupa 211'', Table (plain_table [[''Ziua'', ''Ora''], [''Luni'', ''8-10'']])] [] = Some p"
    using sectioned_luni by blast
  obtain q where q: "parse_columnar_layout [Table (plain_table [[''511'']])] [511, 999] = Inr q"
    using columnar_511_expected by (auto split: sum.splits)
  have r: "parse_timetable_html [Table (plain_table [[''511'']])] [511, 999] = Inr q"
    using q section_none_511 [of "[511, 999]"] by (simp add: parse_timetable_html_def)
  show ?thesis
    using detected_groups_strictly_ascending [of _ _ p _ _ q _ _ q] p q r by auto
qed

section \<open>What the detected groups are\<close>































end
